theory Spec2Isabelle
  imports Main "HOL-Library.AList"
begin

section \<open>Strings, bytes and errors\<close>

text \<open>
  A Python \<^verbatim>\<open>str\<close> is a sequence of Unicode code points, a \<^verbatim>\<open>bytes\<close> object a
  sequence of 8-bit characters. \<open>U\<close> turns an ASCII literal into a \<^verbatim>\<open>str\<close>.
\<close>

type_synonym ustr = "nat list"
type_synonym bytes = "string"

definition U :: "string \<Rightarrow> ustr" where
  "U s = map of_char s"

text \<open>
  The exceptions the package can raise, each with the text \<^verbatim>\<open>str(e)\<close> gives where the
  program prints it. \<open>JSONDecodeError\<close>, \<open>UnicodeDecodeError\<close> and \<open>UnicodeEncodeError\<close> are subclasses of
  \<^verbatim>\<open>ValueError\<close> in Python; the other classes are subclasses of \<^verbatim>\<open>OSError\<close>, or
  \<^verbatim>\<open>TypeError\<close>. \<open>PatternNotModelled\<close> is no exception of Python: it marks a glob
  pattern outside the patterns whose matching is defined below.
\<close>

datatype error =
    FileNotFoundError ustr
  | IsADirectoryError ustr
  | NotADirectoryError ustr
  | PermissionError ustr
  | ValueError ustr
  | JSONDecodeError
  | UnicodeDecodeError
  | UnicodeEncodeError
  | TypeError
  | RecursionError
  | PatternNotModelled ustr

fun is_FileNotFoundError :: "error \<Rightarrow> bool" where
  "is_FileNotFoundError (FileNotFoundError m) = True"
| "is_FileNotFoundError e = False"

fun is_ValueError :: "error \<Rightarrow> bool" where
  "is_ValueError (ValueError m) = True"
| "is_ValueError JSONDecodeError = True"
| "is_ValueError UnicodeDecodeError = True"
| "is_ValueError UnicodeEncodeError = True"
| "is_ValueError e = False"

text \<open>
  The values the program handles besides records: what \<^verbatim>\<open>json.load\<close> can return, and
  \<^verbatim>\<open>None\<close>. A number keeps the text it was written with.
\<close>

datatype pyvalue =
    PyNone
  | PyBool bool
  | PyNumber ustr
  | PyStr ustr
  | PyList "pyvalue list"
  | PyDict "(ustr \<times> pyvalue) list"

section \<open>The file system\<close>

text \<open>
  A tree of directories and regular files, without symbolic links. A regular file has a
  read permission, a write permission and its bytes; a directory lists its entries in
  the order \<^verbatim>\<open>os.scandir\<close> returns them.
\<close>

datatype node =
    File bool bool bytes
  | Dir "(ustr \<times> node) list"

record filesystem =
  root :: node
  cwd :: "ustr list"

datatype errno = ENOENT | ENOTDIR

fun node_at :: "node \<Rightarrow> ustr list \<Rightarrow> node option" where
  "node_at n [] = Some n"
| "node_at (File rd wr c) (p # ps) = None"
| "node_at (Dir es) (p # ps) =
     (case map_of es p of None \<Rightarrow> None | Some m \<Rightarrow> node_at m ps)"

text \<open>
  Path resolution as the kernel does it, one component at a time from the directory
  \<open>cur\<close>: an empty component and \<^verbatim>\<open>.\<close> stay, \<^verbatim>\<open>..\<close> goes up (the root is its own
  parent), a name is looked up; every step needs the current node to be a directory.
\<close>

fun canon :: "node \<Rightarrow> ustr list \<Rightarrow> ustr list \<Rightarrow> errno + ustr list" where
  "canon r cur [] = Inr cur"
| "canon r cur (p # ps) =
     (case node_at r cur of
        None \<Rightarrow> Inl ENOENT
      | Some (File rd wr c) \<Rightarrow> Inl ENOTDIR
      | Some (Dir es) \<Rightarrow>
          (if p = [] \<or> p = U ''.'' then canon r cur ps
           else if p = U ''..'' then canon r (butlast cur) ps
           else (case map_of es p of
                   None \<Rightarrow> Inl ENOENT
                 | Some m \<Rightarrow> canon r (cur @ [p]) ps)))"

section \<open>pathlib\<close>

fun split_on :: "'a \<Rightarrow> 'a list \<Rightarrow> 'a list list" where
  "split_on sep [] = [[]]"
| "split_on sep (c # cs) =
     (if c = sep then [] # split_on sep cs
      else (case split_on sep cs of
              [] \<Rightarrow> [[c]]
            | p # ps \<Rightarrow> (c # p) # ps))"

fun join_with :: "'a \<Rightarrow> 'a list list \<Rightarrow> 'a list" where
  "join_with sep [] = []"
| "join_with sep [p] = p"
| "join_with sep (p # q # ps) = p @ sep # join_with sep (q # ps)"

datatype purepath = PurePath (is_absolute: bool) (parts: "ustr list")

datatype pathlike = Str ustr | PathObj purepath

text \<open>
  \<^verbatim>\<open>Path(x)\<close>: a string is split at \<^verbatim>\<open>/\<close>, and empty components and \<^verbatim>\<open>.\<close> are
  dropped; a path object is taken as it is.
\<close>

fun Path :: "pathlike \<Rightarrow> purepath" where
  "Path (Str s) =
     PurePath (case s of [] \<Rightarrow> False | c # cs \<Rightarrow> c = 0x2F)
       (filter (\<lambda>p. p \<noteq> [] \<and> p \<noteq> U ''.'') (split_on 0x2F s))"
| "Path (PathObj p) = p"

fun str_of_path :: "purepath \<Rightarrow> ustr" where
  "str_of_path (PurePath ab ps) =
     (if ab then 0x2F # join_with 0x2F ps
      else if ps = [] then U ''.'' else join_with 0x2F ps)"

definition stat :: "filesystem \<Rightarrow> purepath \<Rightarrow> errno + node" where
  "stat fs p =
     (case canon (root fs) (if is_absolute p then [] else cwd fs) (parts p) of
        Inl e \<Rightarrow> Inl e
      | Inr c \<Rightarrow> (case node_at (root fs) c of None \<Rightarrow> Inl ENOENT | Some n \<Rightarrow> Inr n))"

definition path_exists :: "filesystem \<Rightarrow> purepath \<Rightarrow> bool" where
  "path_exists fs p = (case stat fs p of Inl e \<Rightarrow> False | Inr n \<Rightarrow> True)"

definition is_file :: "filesystem \<Rightarrow> purepath \<Rightarrow> bool" where
  "is_file fs p = (case stat fs p of Inr (File rd wr c) \<Rightarrow> True | _ \<Rightarrow> False)"

definition is_dir :: "filesystem \<Rightarrow> purepath \<Rightarrow> bool" where
  "is_dir fs p = (case stat fs p of Inr (Dir es) \<Rightarrow> True | _ \<Rightarrow> False)"

text \<open>
  The text of an \<^verbatim>\<open>OSError\<close>: the message of the error number, then the file name
  between single quotes.
\<close>

definition oserror_str :: "string \<Rightarrow> ustr \<Rightarrow> ustr" where
  "oserror_str msg name = U msg @ U '': '' @ [0x27] @ name @ [0x27]"

definition enoent_error :: "ustr \<Rightarrow> error" where
  "enoent_error name = FileNotFoundError (oserror_str ''[Errno 2] No such file or directory'' name)"

definition enotdir_error :: "ustr \<Rightarrow> error" where
  "enotdir_error name = NotADirectoryError (oserror_str ''[Errno 20] Not a directory'' name)"

definition eisdir_error :: "ustr \<Rightarrow> error" where
  "eisdir_error name = IsADirectoryError (oserror_str ''[Errno 21] Is a directory'' name)"

definition eacces_error :: "ustr \<Rightarrow> error" where
  "eacces_error name = PermissionError (oserror_str ''[Errno 13] Permission denied'' name)"

fun errno_error :: "errno \<Rightarrow> ustr \<Rightarrow> error" where
  "errno_error ENOENT name = enoent_error name"
| "errno_error ENOTDIR name = enotdir_error name"

text \<open>\<^verbatim>\<open>open(path, "rb")\<close> followed by reading the file to its end.\<close>

definition open_rb :: "filesystem \<Rightarrow> purepath \<Rightarrow> error + bytes" where
  "open_rb fs p =
     (case stat fs p of
        Inl e \<Rightarrow> Inl (errno_error e (str_of_path p))
      | Inr (Dir es) \<Rightarrow> Inl (eisdir_error (str_of_path p))
      | Inr (File rd wr c) \<Rightarrow>
          (if rd then Inr c else Inl (eacces_error (str_of_path p))))"

section \<open>The Hasher: \<^verbatim>\<open>calculate_checksum\<close>\<close>

text \<open>
  \<^verbatim>\<open>hashlib\<close> is a parameter: the hexadecimal digest each algorithm gives to a
  message. A hash object holds its algorithm and the bytes it was fed so far.
\<close>

datatype algo = SHA256 | MD5 | SHA1

type_synonym hashlib = "algo \<Rightarrow> bytes \<Rightarrow> ustr"
type_synonym hasher = "algo \<times> bytes"

fun update :: "hasher \<Rightarrow> bytes \<Rightarrow> hasher" where
  "update (a, m) chunk = (a, m @ chunk)"

fun hexdigest :: "hashlib \<Rightarrow> hasher \<Rightarrow> ustr" where
  "hexdigest H (a, m) = H a m"

text \<open>\<^verbatim>\<open>str.lower\<close> on the letters of ASCII.\<close>

definition lower :: "ustr \<Rightarrow> ustr" where
  "lower s = map (\<lambda>c. if 0x41 \<le> c \<and> c \<le> 0x5A then c + 32 else c) s"

definition new_hasher :: "ustr \<Rightarrow> hasher option" where
  "new_hasher algorithm =
     (if lower algorithm = U ''sha256'' then Some (SHA256, [])
      else if lower algorithm = U ''md5'' then Some (MD5, [])
      else if lower algorithm = U ''sha1'' then Some (SHA1, [])
      else None)"

text \<open>
  \<^verbatim>\<open>while chunk := f.read(8192): hasher.update(chunk)\<close>, the file object being the
  bytes not yet read.
\<close>

function read_loop :: "hasher \<Rightarrow> bytes \<Rightarrow> hasher" where
  "read_loop h f =
     (let chunk = take 8192 f in
      if chunk = [] then h else read_loop (update h chunk) (drop 8192 f))"
  by pat_completeness auto
termination
  by (relation "measure (\<lambda>(h, f). length f)") auto

declare read_loop.simps [simp del]

definition calculate_checksum ::
  "hashlib \<Rightarrow> filesystem \<Rightarrow> pathlike \<Rightarrow> ustr \<Rightarrow> error + ustr" where
  "calculate_checksum H fs path algorithm =
     (let path = Path path in
      if \<not> path_exists fs path
      then Inl (FileNotFoundError (U ''File not found: '' @ str_of_path path))
      else (case new_hasher algorithm of
              None \<Rightarrow> Inl (ValueError (U ''Unsupported algorithm: '' @ algorithm))
            | Some hasher \<Rightarrow>
                (case open_rb fs path of
                   Inl e \<Rightarrow> Inl e
                 | Inr f \<Rightarrow> Inr (hexdigest H (read_loop hasher f)))))"

section \<open>The Verifier: \<^verbatim>\<open>verify_checksum\<close>\<close>

text \<open>
  The \<^verbatim>\<open>except (FileNotFoundError, ValueError)\<close> clause answers \<open>False\<close> for these two
  classes; an exception of another class leaves the function (\<open>Inl\<close>).
\<close>

definition verify_checksum ::
  "hashlib \<Rightarrow> filesystem \<Rightarrow> pathlike \<Rightarrow> pyvalue \<Rightarrow> error + bool" where
  "verify_checksum H fs path expected_checksum =
     (case calculate_checksum H fs path (U ''sha256'') of
        Inr actual \<Rightarrow> Inr (PyStr actual = expected_checksum)
      | Inl e \<Rightarrow> (if is_FileNotFoundError e \<or> is_ValueError e then Inr False else Inl e))"

section \<open>The module's list of formats\<close>

text \<open>
  \<^verbatim>\<open>SUPPORTED_FORMATS\<close> is a mutable list object that the module's global names. The
  store maps the address of every list object to its items; \<open>fresh\<close> is the next free
  address.
\<close>

record module_state =
  lists :: "nat \<Rightarrow> ustr list"
  fresh :: nat

definition SUPPORTED_FORMATS :: nat where
  "SUPPORTED_FORMATS = 0"

definition initial_module :: module_state where
  "initial_module =
     \<lparr> lists = (\<lambda>a. [])(SUPPORTED_FORMATS := [U ''.h5'', U ''.pt'', U ''.onnx'']),
       fresh = 1 \<rparr>"

text \<open>\<^verbatim>\<open>xs.copy()\<close> allocates a new list object with the items of \<open>xs\<close>.\<close>

definition list_copy :: "module_state \<Rightarrow> nat \<Rightarrow> nat \<times> module_state" where
  "list_copy ms a =
     (fresh ms, ms\<lparr> lists := (lists ms)(fresh ms := lists ms a), fresh := Suc (fresh ms) \<rparr>)"

definition get_supported_formats :: "module_state \<Rightarrow> nat \<times> module_state" where
  "get_supported_formats ms = list_copy ms SUPPORTED_FORMATS"

text \<open>
  Any mutation in place of the list object at address \<open>a\<close> (\<^verbatim>\<open>append\<close>, \<^verbatim>\<open>clear\<close>,
  item assignment, ...): its items become \<open>f\<close> of what they were.
\<close>

definition list_mutate :: "module_state \<Rightarrow> nat \<Rightarrow> (ustr list \<Rightarrow> ustr list) \<Rightarrow> module_state" where
  "list_mutate ms a f = ms\<lparr> lists := (lists ms)(a := f (lists ms a)) \<rparr>"

section \<open>pathlib's glob\<close>

definition endswith :: "'a list \<Rightarrow> 'a list \<Rightarrow> bool" where
  "endswith s e = (length e \<le> length s \<and> drop (length s - length e) s = e)"

text \<open>
  A format is a plain suffix when it has no path separator and none of the characters
  \<^verbatim>\<open>*\<close>, \<^verbatim>\<open>?\<close> and \<^verbatim>\<open>[\<close> that \<^verbatim>\<open>fnmatch\<close> reads as wildcards.
\<close>

definition plain_suffix :: "ustr \<Rightarrow> bool" where
  "plain_suffix e = list_all (\<lambda>c. c \<noteq> 0x2A \<and> c \<noteq> 0x3F \<and> c \<noteq> 0x5B \<and> c \<noteq> 0x2F) e"

text \<open>
  A pattern component made of \<^verbatim>\<open>*\<close> and a literal rest matches the names that end
  with the rest.
\<close>

definition star_literal :: "ustr \<Rightarrow> ustr option" where
  "star_literal pat =
     (case pat of
        [] \<Rightarrow> None
      | c # e \<Rightarrow> if c = 0x2A \<and> plain_suffix e then Some e else None)"

text \<open>
  The directories below a directory, itself first, each before the directories it
  holds: the order in which \<^verbatim>\<open>**\<close> visits them.
\<close>

fun iterate_directories :: "node \<Rightarrow> ustr list list" where
  "iterate_directories (File rd wr c) = []"
| "iterate_directories (Dir es) =
     [] # concat (map (\<lambda>(name, n). map ((#) name) (iterate_directories n)) es)"

text \<open>The entries of the directory at \<open>rel\<close> below \<open>d\<close> whose names end with \<open>e\<close>.\<close>

definition select_in :: "node \<Rightarrow> ustr \<Rightarrow> ustr list \<Rightarrow> ustr list list" where
  "select_in d e rel =
     (case node_at d rel of
        Some (Dir es) \<Rightarrow> map (\<lambda>(name, n). rel @ [name]) (filter (\<lambda>(name, n). endswith name e) es)
      | _ \<Rightarrow> [])"

definition dedup :: "'a list \<Rightarrow> 'a list" where
  "dedup xs = rev (remdups (rev xs))"

definition make_child :: "purepath \<Rightarrow> ustr list \<Rightarrow> purepath" where
  "make_child dir rel = PurePath (is_absolute dir) (parts dir @ rel)"

text \<open>
  \<^verbatim>\<open>directory.glob(pattern)\<close> for the patterns \<^verbatim>\<open>*e\<close> and \<^verbatim>\<open>**/*e\<close> with \<open>e\<close> a plain
  suffix. On a path that is no directory it yields nothing.
\<close>

definition glob :: "filesystem \<Rightarrow> purepath \<Rightarrow> ustr \<Rightarrow> error + purepath list" where
  "glob fs dir pattern =
     (case filter (\<lambda>p. p \<noteq> [] \<and> p \<noteq> U ''.'') (split_on 0x2F pattern) of
        [pat] \<Rightarrow>
          (case star_literal pat of
             None \<Rightarrow> Inl (PatternNotModelled pattern)
           | Some e \<Rightarrow>
               (case stat fs dir of
                  Inr (Dir es) \<Rightarrow> Inr (map (make_child dir) (select_in (Dir es) e []))
                | _ \<Rightarrow> Inr []))
      | [rec, pat] \<Rightarrow>
          (if rec = U ''**'' then
             (case star_literal pat of
                None \<Rightarrow> Inl (PatternNotModelled pattern)
              | Some e \<Rightarrow>
                  (case stat fs dir of
                     Inr (Dir es) \<Rightarrow>
                       Inr (dedup (map (make_child dir)
                         (concat (map (select_in (Dir es) e) (iterate_directories (Dir es))))))
                   | _ \<Rightarrow> Inr []))
           else Inl (PatternNotModelled pattern))
      | _ \<Rightarrow> Inl (PatternNotModelled pattern))"

text \<open>\<^verbatim>\<open>path.relative_to(directory)\<close> compares the parts of the two paths.\<close>

definition relative_to :: "purepath \<Rightarrow> purepath \<Rightarrow> error + purepath" where
  "relative_to path directory =
     (if is_absolute path = is_absolute directory
         \<and> take (length (parts directory)) (parts path) = parts directory
      then Inr (PurePath False (drop (length (parts directory)) (parts path)))
      else Inl (ValueError (str_of_path path @ U '' is not in the subpath of ''
                  @ str_of_path directory)))"

section \<open>The Scanner: \<^verbatim>\<open>scan_directory\<close>\<close>

type_synonym checksums = "(ustr \<times> ustr) list"

text \<open>The inner loop, over the paths of one glob, and the outer loop, over the formats.\<close>

fun scan_paths ::
  "hashlib \<Rightarrow> filesystem \<Rightarrow> purepath \<Rightarrow> purepath list \<Rightarrow> checksums \<Rightarrow> error + checksums" where
  "scan_paths H fs directory [] checksums = Inr checksums"
| "scan_paths H fs directory (path # rest) checksums =
     (if is_file fs path then
        (case relative_to path directory of
           Inl e \<Rightarrow> Inl e
         | Inr rel_path \<Rightarrow>
             (case calculate_checksum H fs (PathObj path) (U ''sha256'') of
                Inl e \<Rightarrow> Inl e
              | Inr c \<Rightarrow>
                  scan_paths H fs directory rest
                    (AList.update (str_of_path rel_path) c checksums)))
      else scan_paths H fs directory rest checksums)"

fun scan_formats ::
  "hashlib \<Rightarrow> filesystem \<Rightarrow> purepath \<Rightarrow> ustr \<Rightarrow> ustr list \<Rightarrow> checksums \<Rightarrow> error + checksums" where
  "scan_formats H fs directory pattern [] checksums = Inr checksums"
| "scan_formats H fs directory pattern (ext # exts) checksums =
     (case glob fs directory (pattern @ ext) of
        Inl e \<Rightarrow> Inl e
      | Inr paths \<Rightarrow>
          (case scan_paths H fs directory paths checksums of
             Inl e \<Rightarrow> Inl e
           | Inr checksums' \<Rightarrow> scan_formats H fs directory pattern exts checksums'))"

definition scan_directory ::
  "hashlib \<Rightarrow> module_state \<Rightarrow> filesystem \<Rightarrow> pathlike \<Rightarrow> ustr list option \<Rightarrow> bool
     \<Rightarrow> error + checksums" where
  "scan_directory H ms fs directory formats recursive =
     (let directory = Path directory;
          formats = (case formats of None \<Rightarrow> lists ms SUPPORTED_FORMATS | Some f \<Rightarrow> f);
          pattern = (if recursive then U ''**/*'' else U ''*'')
      in scan_formats H fs directory pattern formats [])"

section \<open>Well-formed trees and the files a scan is about\<close>





text \<open>The pattern \<open>scan_directory\<close> puts before each format.\<close>

definition scan_pattern :: "bool \<Rightarrow> ustr" where
  "scan_pattern recursive = (if recursive then U ''**/*'' else U ''*'')"






section \<open>The json module\<close>

subsection \<open>Encoding\<close>

text \<open>
  \<^verbatim>\<open>json.dump(checksums, f, indent=2)\<close> with the default \<^verbatim>\<open>ensure_ascii\<close>: a string is
  written between double quotes, with \<^verbatim>\<open>"\<close>, \<^verbatim>\<open>\\<close> and the control characters
  escaped, and every character outside \<^verbatim>\<open>' '..'~'\<close> as \<^verbatim>\<open>\uXXXX\<close> (a character
  above \<^verbatim>\<open>0xFFFF\<close> as a surrogate pair).
\<close>

definition hexdigit :: "nat \<Rightarrow> nat" where
  "hexdigit n = (if n < 10 then 0x30 + n else 0x61 + (n - 10))"

definition hex4 :: "nat \<Rightarrow> ustr" where
  "hex4 n = [hexdigit (n div 4096 mod 16), hexdigit (n div 256 mod 16),
             hexdigit (n div 16 mod 16), hexdigit (n mod 16)]"

definition escape_char :: "nat \<Rightarrow> ustr" where
  "escape_char c =
     (if c = 0x22 then [0x5C, 0x22]
      else if c = 0x5C then [0x5C, 0x5C]
      else if c = 0x0A then [0x5C, 0x6E]
      else if c = 0x0D then [0x5C, 0x72]
      else if c = 0x09 then [0x5C, 0x74]
      else if c = 0x08 then [0x5C, 0x62]
      else if c = 0x0C then [0x5C, 0x66]
      else if 0x20 \<le> c \<and> c \<le> 0x7E then [c]
      else if c < 0x10000 then [0x5C, 0x75] @ hex4 c
      else [0x5C, 0x75] @ hex4 (0xD800 + (c - 0x10000) div 1024 mod 1024)
         @ [0x5C, 0x75] @ hex4 (0xDC00 + (c - 0x10000) mod 1024))"

definition encode_basestring_ascii :: "ustr \<Rightarrow> ustr" where
  "encode_basestring_ascii s = 0x22 # concat (map escape_char s) @ [0x22]"

definition dump_item :: "ustr \<times> ustr \<Rightarrow> ustr" where
  "dump_item kv =
     encode_basestring_ascii (fst kv) @ [0x3A, 0x20] @ encode_basestring_ascii (snd kv)"

text \<open>The items of a dictionary that is not empty, each on a line of its own.\<close>

fun dump_items :: "(ustr \<times> ustr) list \<Rightarrow> ustr" where
  "dump_items [] = []"
| "dump_items [kv] = dump_item kv"
| "dump_items (kv # kv' # rest) = dump_item kv @ [0x2C, 0x0A, 0x20, 0x20] @ dump_items (kv' # rest)"

definition json_dumps :: "(ustr \<times> ustr) list \<Rightarrow> ustr" where
  "json_dumps obj =
     (if obj = [] then [0x7B, 0x7D]
      else [0x7B, 0x0A, 0x20, 0x20] @ dump_items obj @ [0x0A, 0x7D])"

subsection \<open>Decoding\<close>

definition is_ws :: "nat \<Rightarrow> bool" where
  "is_ws c = (c = 0x20 \<or> c = 0x09 \<or> c = 0x0A \<or> c = 0x0D)"

definition skip_ws :: "ustr \<Rightarrow> ustr" where
  "skip_ws s = dropWhile is_ws s"

definition hexval :: "nat \<Rightarrow> nat option" where
  "hexval c =
     (if 0x30 \<le> c \<and> c \<le> 0x39 then Some (c - 0x30)
      else if 0x41 \<le> c \<and> c \<le> 0x46 then Some (c - 0x41 + 10)
      else if 0x61 \<le> c \<and> c \<le> 0x66 then Some (c - 0x61 + 10)
      else None)"

definition decode_hex4 :: "nat \<Rightarrow> nat \<Rightarrow> nat \<Rightarrow> nat \<Rightarrow> nat option" where
  "decode_hex4 a b c d =
     (case (hexval a, hexval b, hexval c, hexval d) of
        (Some w, Some x, Some y, Some z) \<Rightarrow> Some (((w * 16 + x) * 16 + y) * 16 + z)
      | _ \<Rightarrow> None)"

definition backslash :: "nat \<Rightarrow> nat option" where
  "backslash e =
     (if e = 0x22 then Some 0x22
      else if e = 0x5C then Some 0x5C
      else if e = 0x2F then Some 0x2F
      else if e = 0x62 then Some 0x08
      else if e = 0x66 then Some 0x0C
      else if e = 0x6E then Some 0x0A
      else if e = 0x72 then Some 0x0D
      else if e = 0x74 then Some 0x09
      else None)"

definition is_high_surrogate :: "nat \<Rightarrow> bool" where
  "is_high_surrogate c = (0xD800 \<le> c \<and> c \<le> 0xDBFF)"

definition is_low_surrogate :: "nat \<Rightarrow> bool" where
  "is_low_surrogate c = (0xDC00 \<le> c \<and> c \<le> 0xDFFF)"

definition join_surrogates :: "nat \<Rightarrow> nat \<Rightarrow> nat" where
  "join_surrogates hi lo = 0x10000 + ((hi - 0xD800) * 1024 + (lo - 0xDC00))"

text \<open>
  The text after a high surrogate's escape: when it starts with the escape of a low
  surrogate, the decoder takes the two escapes for one character.
\<close>

fun low_escape :: "ustr \<Rightarrow> (nat \<times> ustr) option" where
  "low_escape (bs # u # a # b # c # d # rest) =
     (if bs = 0x5C \<and> u = 0x75 then
        (case decode_hex4 a b c d of
           None \<Rightarrow> None
         | Some lo \<Rightarrow> if is_low_surrogate lo then Some (lo, rest) else None)
      else None)"
| "low_escape s = None"

text \<open>
  \<^verbatim>\<open>scanstring\<close>, from the character after the opening quote, in strict mode: a
  control character in a string is an error. It returns the string and the text after
  the closing quote.
\<close>

function scanstring :: "ustr \<Rightarrow> ustr \<Rightarrow> error + (ustr \<times> ustr)" where
  "scanstring [] acc = Inl JSONDecodeError"
| "scanstring (c # cs) acc =
     (if c = 0x22 then Inr (acc, cs)
      else if c = 0x5C then
        (case cs of
           [] \<Rightarrow> Inl JSONDecodeError
         | e # rest \<Rightarrow>
             if e = 0x75 then
               (case rest of
                  a # b # c' # d # rest' \<Rightarrow>
                    (case decode_hex4 a b c' d of
                       None \<Rightarrow> Inl JSONDecodeError
                     | Some uni \<Rightarrow>
                         if is_high_surrogate uni then
                           (case low_escape rest' of
                              Some (lo, rest'') \<Rightarrow>
                                scanstring (drop 6 rest') (acc @ [join_surrogates uni lo])
                            | None \<Rightarrow> scanstring rest' (acc @ [uni]))
                         else scanstring rest' (acc @ [uni]))
                | _ \<Rightarrow> Inl JSONDecodeError)
             else
               (case backslash e of
                  None \<Rightarrow> Inl JSONDecodeError
                | Some ch \<Rightarrow> scanstring rest (acc @ [ch])))
      else if c < 0x20 then Inl JSONDecodeError
      else scanstring cs (acc @ [c]))"
  by pat_completeness auto
termination
  by (relation "measure (\<lambda>(s, acc). length s)") auto

declare scanstring.simps [simp del]

text \<open>A number, as the decoder's regular expression matches it: its text and the rest.\<close>

definition is_digit :: "nat \<Rightarrow> bool" where
  "is_digit c = (0x30 \<le> c \<and> c \<le> 0x39)"

definition match_number :: "ustr \<Rightarrow> (ustr \<times> ustr) option" where
  "match_number s =
     (let (sign, s1) = (case s of c # r \<Rightarrow> if c = 0x2D then ([c], r) else ([], s) | [] \<Rightarrow> ([], s)) in
      case s1 of
        [] \<Rightarrow> None
      | c # r \<Rightarrow>
          if \<not> is_digit c then None
          else
            let (int_part, s2) =
                  (if c = 0x30 then ([c], r) else (c # takeWhile is_digit r, dropWhile is_digit r));
                (frac, s3) =
                  (case s2 of
                     p # q # r2 \<Rightarrow>
                       if p = 0x2E \<and> is_digit q
                       then (p # q # takeWhile is_digit r2, dropWhile is_digit r2)
                       else ([], s2)
                   | _ \<Rightarrow> ([], s2));
                (ex, s4) =
                  (case s3 of
                     e # r3 \<Rightarrow>
                       if e = 0x65 \<or> e = 0x45 then
                         (case r3 of
                            g # r4 \<Rightarrow>
                              if is_digit g then (e # g # takeWhile is_digit r4, dropWhile is_digit r4)
                              else if g = 0x2B \<or> g = 0x2D then
                                (case r4 of
                                   h # r5 \<Rightarrow>
                                     if is_digit h
                                     then (e # g # h # takeWhile is_digit r5, dropWhile is_digit r5)
                                     else ([], s3)
                                 | [] \<Rightarrow> ([], s3))
                              else ([], s3)
                          | [] \<Rightarrow> ([], s3))
                       else ([], s3)
                   | [] \<Rightarrow> ([], s3))
            in Some (sign @ int_part @ frac @ ex, s4))"

definition strip_prefix :: "'a list \<Rightarrow> 'a list \<Rightarrow> 'a list option" where
  "strip_prefix p s = (if take (length p) s = p then Some (drop (length p) s) else None)"

text \<open>The constants and numbers: \<^verbatim>\<open>null\<close>, \<^verbatim>\<open>true\<close>, \<^verbatim>\<open>false\<close>, \<^verbatim>\<open>NaN\<close>, the infinities.\<close>

definition scan_atom :: "ustr \<Rightarrow> error + (pyvalue \<times> ustr)" where
  "scan_atom s =
     (case strip_prefix (U ''null'') s of Some r \<Rightarrow> Inr (PyNone, r) | None \<Rightarrow>
      case strip_prefix (U ''true'') s of Some r \<Rightarrow> Inr (PyBool True, r) | None \<Rightarrow>
      case strip_prefix (U ''false'') s of Some r \<Rightarrow> Inr (PyBool False, r) | None \<Rightarrow>
      case strip_prefix (U ''NaN'') s of Some r \<Rightarrow> Inr (PyNumber (U ''NaN''), r) | None \<Rightarrow>
      case strip_prefix (U ''Infinity'') s of Some r \<Rightarrow> Inr (PyNumber (U ''Infinity''), r) | None \<Rightarrow>
      case strip_prefix (U ''-Infinity'') s of Some r \<Rightarrow> Inr (PyNumber (U ''-Infinity''), r) | None \<Rightarrow>
      case match_number s of Some (n, r) \<Rightarrow> Inr (PyNumber n, r) | None \<Rightarrow> Inl JSONDecodeError)"

text \<open>
  The scanner, with fuel for its recursion: \<open>scan_once\<close> reads one value,
  \<open>object_loop\<close> the pairs of an object from the quote of a key on, \<open>array_loop\<close> the
  items of an array. A key met again keeps its place and takes the later value, as in a
  Python \<^verbatim>\<open>dict\<close>.
\<close>

fun scan_once :: "nat \<Rightarrow> ustr \<Rightarrow> error + (pyvalue \<times> ustr)"
  and object_loop :: "nat \<Rightarrow> ustr \<Rightarrow> (ustr \<times> pyvalue) list \<Rightarrow> error + (pyvalue \<times> ustr)"
  and array_loop :: "nat \<Rightarrow> ustr \<Rightarrow> pyvalue list \<Rightarrow> error + (pyvalue \<times> ustr)" where
  "scan_once 0 s = Inl RecursionError"
| "scan_once (Suc n) [] = Inl JSONDecodeError"
| "scan_once (Suc n) (c # cs) =
     (if c = 0x22 then
        (case scanstring cs [] of
           Inl e \<Rightarrow> Inl e
         | Inr (str, rest) \<Rightarrow> Inr (PyStr str, rest))
      else if c = 0x7B then
        (case skip_ws cs of
           [] \<Rightarrow> Inl JSONDecodeError
         | c' # r \<Rightarrow> if c' = 0x7D then Inr (PyDict [], r) else object_loop n (c' # r) [])
      else if c = 0x5B then
        (case skip_ws cs of
           [] \<Rightarrow> Inl JSONDecodeError
         | c' # r \<Rightarrow> if c' = 0x5D then Inr (PyList [], r) else array_loop n (c' # r) [])
      else scan_atom (c # cs))"
| "object_loop 0 s pairs = Inl RecursionError"
| "object_loop (Suc n) [] pairs = Inl JSONDecodeError"
| "object_loop (Suc n) (c # cs) pairs =
     (if c \<noteq> 0x22 then Inl JSONDecodeError
      else
        (case scanstring cs [] of
           Inl e \<Rightarrow> Inl e
         | Inr (key, r1) \<Rightarrow>
             (case skip_ws r1 of
                [] \<Rightarrow> Inl JSONDecodeError
              | c1 # r2 \<Rightarrow>
                  if c1 \<noteq> 0x3A then Inl JSONDecodeError
                  else
                    (case scan_once n (skip_ws r2) of
                       Inl e \<Rightarrow> Inl e
                     | Inr (v, r3) \<Rightarrow>
                         (case skip_ws r3 of
                            [] \<Rightarrow> Inl JSONDecodeError
                          | c3 # r4 \<Rightarrow>
                              if c3 = 0x7D then Inr (PyDict (AList.update key v pairs), r4)
                              else if c3 = 0x2C
                              then object_loop n (skip_ws r4) (AList.update key v pairs)
                              else Inl JSONDecodeError)))))"
| "array_loop 0 s items = Inl RecursionError"
| "array_loop (Suc n) s items =
     (case scan_once n s of
        Inl e \<Rightarrow> Inl e
      | Inr (v, r1) \<Rightarrow>
          (case skip_ws r1 of
             [] \<Rightarrow> Inl JSONDecodeError
           | c1 # r2 \<Rightarrow>
               if c1 = 0x5D then Inr (PyList (items @ [v]), r2)
               else if c1 = 0x2C then array_loop n (skip_ws r2) (items @ [v])
               else Inl JSONDecodeError))"

text \<open>
  \<^verbatim>\<open>json.loads\<close>: a text that starts with a byte order mark is refused; white space
  may stand before and after the value, and nothing else after it. The scanner has one
  unit of fuel for every character and one more.
\<close>

definition json_loads :: "ustr \<Rightarrow> error + pyvalue" where
  "json_loads s =
     (if take 1 s = [0xFEFF] then Inl JSONDecodeError
      else
        (case scan_once (Suc (length s)) (skip_ws s) of
           Inl e \<Rightarrow> Inl e
         | Inr (v, rest) \<Rightarrow> if skip_ws rest = [] then Inr v else Inl JSONDecodeError))"

subsection \<open>Strings that keep their characters\<close>






section \<open>Text files\<close>

text \<open>
  A file opened in text mode is encoded and decoded with the locale's encoding, taken
  to be UTF-8, and on reading every \<^verbatim>\<open>\r\n\<close> and every \<^verbatim>\<open>\r\<close> becomes \<^verbatim>\<open>\n\<close>.
\<close>

definition utf8_encode_char :: "nat \<Rightarrow> bytes option" where
  "utf8_encode_char c =
     (if c < 0x80 then Some [char_of c]
      else if c < 0x800 then Some [char_of (0xC0 + c div 64), char_of (0x80 + c mod 64)]
      else if c < 0x10000 then
        (if 0xD800 \<le> c \<and> c \<le> 0xDFFF then None
         else Some [char_of (0xE0 + c div 4096), char_of (0x80 + c div 64 mod 64),
                    char_of (0x80 + c mod 64)])
      else if c < 0x110000 then
        Some [char_of (0xF0 + c div 262144), char_of (0x80 + c div 4096 mod 64),
              char_of (0x80 + c div 64 mod 64), char_of (0x80 + c mod 64)]
      else None)"

fun utf8_encode :: "ustr \<Rightarrow> error + bytes" where
  "utf8_encode [] = Inr []"
| "utf8_encode (c # cs) =
     (case utf8_encode_char c of
        None \<Rightarrow> Inl UnicodeEncodeError
      | Some bs \<Rightarrow> (case utf8_encode cs of Inl e \<Rightarrow> Inl e | Inr r \<Rightarrow> Inr (bs @ r)))"

definition continuation :: "char \<Rightarrow> nat \<Rightarrow> nat \<Rightarrow> bool" where
  "continuation b lo hi = (lo \<le> of_char b \<and> (of_char b :: nat) \<le> hi)"

definition cons_char :: "nat \<Rightarrow> error + ustr \<Rightarrow> error + ustr" where
  "cons_char c r = (case r of Inl e \<Rightarrow> Inl e | Inr s \<Rightarrow> Inr (c # s))"

fun utf8_decode :: "bytes \<Rightarrow> error + ustr" where
  "utf8_decode [] = Inr []"
| "utf8_decode (b # bs) =
     (let x = (of_char b :: nat) in
      if x < 0x80 then cons_char x (utf8_decode bs)
      else if 0xC2 \<le> x \<and> x \<le> 0xDF then
        (case bs of
           b1 # r \<Rightarrow>
             if continuation b1 0x80 0xBF
             then cons_char ((x - 0xC0) * 64 + (of_char b1 - 0x80)) (utf8_decode r)
             else Inl UnicodeDecodeError
         | _ \<Rightarrow> Inl UnicodeDecodeError)
      else if 0xE0 \<le> x \<and> x \<le> 0xEF then
        (case bs of
           b1 # b2 # r \<Rightarrow>
             if continuation b1 (if x = 0xE0 then 0xA0 else 0x80) (if x = 0xED then 0x9F else 0xBF)
                \<and> continuation b2 0x80 0xBF
             then cons_char ((x - 0xE0) * 4096 + (of_char b1 - 0x80) * 64 + (of_char b2 - 0x80))
                    (utf8_decode r)
             else Inl UnicodeDecodeError
         | _ \<Rightarrow> Inl UnicodeDecodeError)
      else if 0xF0 \<le> x \<and> x \<le> 0xF4 then
        (case bs of
           b1 # b2 # b3 # r \<Rightarrow>
             if continuation b1 (if x = 0xF0 then 0x90 else 0x80) (if x = 0xF4 then 0x8F else 0xBF)
                \<and> continuation b2 0x80 0xBF \<and> continuation b3 0x80 0xBF
             then cons_char ((x - 0xF0) * 262144 + (of_char b1 - 0x80) * 4096
                      + (of_char b2 - 0x80) * 64 + (of_char b3 - 0x80))
                    (utf8_decode r)
             else Inl UnicodeDecodeError
         | _ \<Rightarrow> Inl UnicodeDecodeError)
      else Inl UnicodeDecodeError)"

fun universal_newlines :: "ustr \<Rightarrow> ustr" where
  "universal_newlines [] = []"
| "universal_newlines [c] = [if c = 0x0D then 0x0A else c]"
| "universal_newlines (c # d # s) =
     (if c = 0x0D \<and> d = 0x0A then 0x0A # universal_newlines s
      else (if c = 0x0D then 0x0A else c) # universal_newlines (d # s))"

section \<open>Opening a file by its name\<close>

text \<open>
  \<open>put_at r dir name f\<close> is the tree \<open>r\<close> with \<open>f\<close> as the entry \<open>name\<close> of the
  directory at \<open>dir\<close>: in the place of the entry of that name, or as a new last entry.
\<close>

fun put_at :: "node \<Rightarrow> ustr list \<Rightarrow> ustr \<Rightarrow> node \<Rightarrow> node" where
  "put_at (File rd wr c) ps name f = File rd wr c"
| "put_at (Dir es) [] name f = Dir (AList.update name f es)"
| "put_at (Dir es) (p # ps) name f =
     Dir (map (\<lambda>(k, n). if k = p then (k, put_at n ps name f) else (k, n)) es)"

definition start_dir :: "filesystem \<Rightarrow> ustr \<Rightarrow> ustr list" where
  "start_dir fs s = (if take 1 s = [0x2F] then [] else cwd fs)"

text \<open>
  \<^verbatim>\<open>open(filepath, "r")\<close> and reading to the end: the bytes of the file. The empty name
  names no file.
\<close>

definition read_file :: "filesystem \<Rightarrow> ustr \<Rightarrow> error + bytes" where
  "read_file fs s =
     (if s = [] then Inl (enoent_error s)
      else
        (case canon (root fs) (start_dir fs s) (split_on 0x2F s) of
           Inl e \<Rightarrow> Inl (errno_error e s)
         | Inr c \<Rightarrow>
             (case node_at (root fs) c of
                None \<Rightarrow> Inl (enoent_error s)
              | Some (Dir es) \<Rightarrow> Inl (eisdir_error s)
              | Some (File rd wr b) \<Rightarrow> if rd then Inr b else Inl (eacces_error s))))"

text \<open>
  \<^verbatim>\<open>open(filepath, "w")\<close>, writing the bytes and closing: the directory of the name
  must exist; a file of that name is replaced when it has the write permission, and a
  new file is readable and writable.
\<close>

definition write_file :: "filesystem \<Rightarrow> ustr \<Rightarrow> bytes \<Rightarrow> error + filesystem" where
  "write_file fs s bs =
     (if s = [] then Inl (enoent_error s)
      else
        (let comps = split_on 0x2F s; name = last comps in
         case canon (root fs) (start_dir fs s) (butlast comps) of
           Inl e \<Rightarrow> Inl (errno_error e s)
         | Inr dir \<Rightarrow>
             (case node_at (root fs) dir of
                None \<Rightarrow> Inl (enoent_error s)
              | Some (File rd wr c) \<Rightarrow> Inl (enotdir_error s)
              | Some (Dir es) \<Rightarrow>
                  if name = [] \<or> name = U ''.'' \<or> name = U ''..'' then Inl (eisdir_error s)
                  else
                    (case map_of es name of
                       None \<Rightarrow> Inr (fs\<lparr>root := put_at (root fs) dir name (File True True bs)\<rparr>)
                     | Some (Dir es') \<Rightarrow> Inl (eisdir_error s)
                     | Some (File rd wr c) \<Rightarrow>
                         if wr then Inr (fs\<lparr>root := put_at (root fs) dir name (File rd wr bs)\<rparr>)
                         else Inl (eacces_error s)))))"

section \<open>The Checksum Store: \<^verbatim>\<open>save_checksums\<close> and \<^verbatim>\<open>load_checksums\<close>\<close>

text \<open>
  The document \<^verbatim>\<open>json.dump\<close> writes is ASCII, so that its encoding cannot fail after
  the file was opened.
\<close>

definition save_checksums :: "filesystem \<Rightarrow> checksums \<Rightarrow> ustr \<Rightarrow> error + filesystem" where
  "save_checksums fs checksums filepath =
     (case utf8_encode (json_dumps checksums) of
        Inl e \<Rightarrow> Inl e
      | Inr bs \<Rightarrow> write_file fs filepath bs)"

definition load_checksums :: "filesystem \<Rightarrow> ustr \<Rightarrow> error + pyvalue" where
  "load_checksums fs filepath =
     (case read_file fs filepath of
        Inl e \<Rightarrow> Inl e
      | Inr bs \<Rightarrow>
          (case utf8_decode bs of
             Inl e \<Rightarrow> Inl e
           | Inr s \<Rightarrow> json_loads (universal_newlines s)))"

text \<open>Saving a record and loading the file again.\<close>

definition save_then_load :: "filesystem \<Rightarrow> checksums \<Rightarrow> ustr \<Rightarrow> error + pyvalue" where
  "save_then_load fs checksums filepath =
     (case save_checksums fs checksums filepath of
        Inl e \<Rightarrow> Inl e
      | Inr fs' \<Rightarrow> load_checksums fs' filepath)"



section \<open>The command shell\<close>

text \<open>
  The arguments as \<^verbatim>\<open>argparse\<close> hands them to \<^verbatim>\<open>main\<close>: the sub-command, and the
  attributes of the sub-commands. An option that was not given is \<^verbatim>\<open>None\<close>.
\<close>

record args =
  arg_command :: "ustr option"
  arg_model :: ustr
  arg_output :: "ustr option"
  arg_checksum :: "ustr option"
  arg_checksum_file :: "ustr option"
  arg_directory :: ustr
  arg_formats :: "ustr option"
  arg_no_recursive :: bool

text \<open>
  What a command leaves behind when it returns: the exit status, what each \<^verbatim>\<open>print\<close>
  wrote to the output and to the error stream, the file system and the module's state.
  A command that does not return (\<open>Inl\<close>) was left by an exception.
\<close>

record outcome =
  status :: int
  stdout :: "ustr list"
  stderr :: "ustr list"
  files :: filesystem
  modstate :: module_state

text \<open>Python's truth value of an optional string: \<^verbatim>\<open>None\<close> and \<^verbatim>\<open>''\<close> are false.\<close>

fun truthy :: "ustr option \<Rightarrow> bool" where
  "truthy None = False"
| "truthy (Some s) = (s \<noteq> [])"

fun optional_str :: "ustr option \<Rightarrow> pyvalue" where
  "optional_str None = PyNone"
| "optional_str (Some s) = PyStr s"

text \<open>\<^verbatim>\<open>sub in s\<close> for two strings.\<close>

fun contains :: "'a list \<Rightarrow> 'a list \<Rightarrow> bool" where
  "contains [] sub = (sub = [])"
| "contains (c # cs) sub = (take (length sub) (c # cs) = sub \<or> contains cs sub)"

text \<open>\<^verbatim>\<open>str(n)\<close> for a natural number.\<close>

function decimal :: "nat \<Rightarrow> ustr" where
  "decimal n = (if n < 10 then [0x30 + n] else decimal (n div 10) @ [0x30 + n mod 10])"
  by pat_completeness auto
termination
  by (relation "measure id") auto

declare decimal.simps [simp del]

text \<open>
  The \<^verbatim>\<open>except FileNotFoundError as e\<close> clause of \<open>cmd_calculate\<close> and \<open>cmd_verify\<close>:
  it prints the error and returns 1; an exception of another class passes.
\<close>

fun except_FileNotFoundError ::
  "filesystem \<Rightarrow> module_state \<Rightarrow> error \<Rightarrow> error + outcome" where
  "except_FileNotFoundError fs ms (FileNotFoundError m) =
     Inr \<lparr>status = 1, stdout = [], stderr = [U ''Error: '' @ m], files = fs, modstate = ms\<rparr>"
| "except_FileNotFoundError fs ms e = Inl e"

definition cmd_calculate :: "hashlib \<Rightarrow> module_state \<Rightarrow> filesystem \<Rightarrow> args \<Rightarrow> error + outcome" where
  "cmd_calculate H ms fs a =
     (case calculate_checksum H fs (Str (arg_model a)) (U ''sha256'') of
        Inl e \<Rightarrow> except_FileNotFoundError fs ms e
      | Inr checksum \<Rightarrow>
          (case arg_output a of
             Some out \<Rightarrow>
               if out \<noteq> [] then
                 (case save_checksums fs [(arg_model a, checksum)] out of
                    Inl e \<Rightarrow> except_FileNotFoundError fs ms e
                  | Inr fs' \<Rightarrow>
                      Inr \<lparr>status = 0, stdout = [U ''Checksum saved to '' @ out], stderr = [],
                           files = fs', modstate = ms\<rparr>)
               else Inr \<lparr>status = 0, stdout = [checksum], stderr = [], files = fs, modstate = ms\<rparr>
           | None \<Rightarrow> Inr \<lparr>status = 0, stdout = [checksum], stderr = [], files = fs, modstate = ms\<rparr>))"

text \<open>
  \<^verbatim>\<open>args.model in checksums\<close> and \<^verbatim>\<open>checksums[args.model]\<close> on what \<^verbatim>\<open>json.load\<close>
  returned: \<open>Inr (Some v)\<close> is the expected value, \<open>Inr None\<close> means that the model is not
  in the file. On a list or a string that holds the model the subscription raises
  \<^verbatim>\<open>TypeError\<close>, and so does \<^verbatim>\<open>in\<close> on a value that is no container.
\<close>

fun lookup_model :: "pyvalue \<Rightarrow> ustr \<Rightarrow> error + pyvalue option" where
  "lookup_model (PyDict kvs) m = Inr (map_of kvs m)"
| "lookup_model (PyList xs) m = (if PyStr m \<in> set xs then Inl TypeError else Inr None)"
| "lookup_model (PyStr s) m = (if contains s m then Inl TypeError else Inr None)"
| "lookup_model v m = Inl TypeError"

definition report_verification ::
  "hashlib \<Rightarrow> module_state \<Rightarrow> filesystem \<Rightarrow> ustr \<Rightarrow> pyvalue \<Rightarrow> error + outcome" where
  "report_verification H ms fs m expected =
     (case verify_checksum H fs (Str m) expected of
        Inl e \<Rightarrow> Inl e
      | Inr ok \<Rightarrow>
          if ok then
            Inr \<lparr>status = 0, stdout = [0x2713 # U '' Checksum verified successfully''],
                 stderr = [], files = fs, modstate = ms\<rparr>
          else
            Inr \<lparr>status = 1, stdout = [], stderr = [0x2717 # U '' Checksum mismatch!''],
                 files = fs, modstate = ms\<rparr>)"

definition cmd_verify :: "hashlib \<Rightarrow> module_state \<Rightarrow> filesystem \<Rightarrow> args \<Rightarrow> error + outcome" where
  "cmd_verify H ms fs a =
     (if truthy (arg_checksum_file a) then
        (case load_checksums fs (the (arg_checksum_file a)) of
           Inl e \<Rightarrow> except_FileNotFoundError fs ms e
         | Inr checksums \<Rightarrow>
             (case lookup_model checksums (arg_model a) of
                Inl e \<Rightarrow> except_FileNotFoundError fs ms e
              | Inr None \<Rightarrow>
                  Inr \<lparr>status = 1, stdout = [],
                       stderr = [U ''Error: Model '' @ [0x27] @ arg_model a @ [0x27]
                                 @ U '' not found in checksum file''],
                       files = fs, modstate = ms\<rparr>
              | Inr (Some expected) \<Rightarrow> report_verification H ms fs (arg_model a) expected))
      else report_verification H ms fs (arg_model a) (optional_str (arg_checksum a)))"

text \<open>\<^verbatim>\<open>args.formats.split(",") if args.formats else None\<close>\<close>

definition split_formats :: "ustr option \<Rightarrow> ustr list option" where
  "split_formats f = (if truthy f then Some (split_on 0x2C (the f)) else None)"

definition cmd_scan :: "hashlib \<Rightarrow> module_state \<Rightarrow> filesystem \<Rightarrow> args \<Rightarrow> error + outcome" where
  "cmd_scan H ms fs a =
     (let formats = split_formats (arg_formats a) in
      case scan_directory H ms fs (Str (arg_directory a)) formats (\<not> arg_no_recursive a) of
        Inl e \<Rightarrow> Inl e
      | Inr checksums \<Rightarrow>
          if truthy (arg_output a) then
            (case save_checksums fs checksums (the (arg_output a)) of
               Inl e \<Rightarrow> Inl e
             | Inr fs' \<Rightarrow>
                 Inr \<lparr>status = 0,
                      stdout = [U ''Found '' @ decimal (length checksums)
                                @ U '' model file(s). Checksums saved to '' @ the (arg_output a)],
                      stderr = [], files = fs', modstate = ms\<rparr>)
          else
            Inr \<lparr>status = 0, stdout = [json_dumps checksums], stderr = [],
                 files = fs, modstate = ms\<rparr>)"

definition cmd_formats :: "hashlib \<Rightarrow> module_state \<Rightarrow> filesystem \<Rightarrow> args \<Rightarrow> error + outcome" where
  "cmd_formats H ms fs a =
     (let (fmts, ms') = get_supported_formats ms in
      Inr \<lparr>status = 0, stdout = lists ms' fmts, stderr = [], files = fs, modstate = ms'\<rparr>)"

text \<open>The first line of what \<^verbatim>\<open>parser.print_help()\<close> prints.\<close>

definition help_text :: ustr where
  "help_text = U ''usage: [-h] {calculate,verify,scan,formats} ...''"

definition main :: "hashlib \<Rightarrow> module_state \<Rightarrow> filesystem \<Rightarrow> args \<Rightarrow> error + outcome" where
  "main H ms fs a =
     (if \<not> truthy (arg_command a) then
        Inr \<lparr>status = 1, stdout = [help_text], stderr = [], files = fs, modstate = ms\<rparr>
      else if arg_command a = Some (U ''calculate'') then cmd_calculate H ms fs a
      else if arg_command a = Some (U ''verify'') then
        (if \<not> truthy (arg_checksum a) \<and> \<not> truthy (arg_checksum_file a) then
           Inr \<lparr>status = 1, stdout = [],
                stderr = [U ''Error: Either --checksum or --checksum-file required''],
                files = fs, modstate = ms\<rparr>
         else cmd_verify H ms fs a)
      else if arg_command a = Some (U ''scan'') then cmd_scan H ms fs a
      else if arg_command a = Some (U ''formats'') then cmd_formats H ms fs a
      else Inr \<lparr>status = 0, stdout = [], stderr = [], files = fs, modstate = ms\<rparr>)"


section \<open>Sample data\<close>

text \<open>A stand-in for \<^verbatim>\<open>hashlib\<close> in the examples: one digit per byte of the message.\<close>

definition sample_hashlib :: hashlib where
  "sample_hashlib a m =
     (case a of SHA256 \<Rightarrow> U ''s'' | MD5 \<Rightarrow> U ''m'' | SHA1 \<Rightarrow> U ''h'') @ map (\<lambda>c. 0x30) m"

definition sample_models :: node where
  "sample_models =
     Dir [(U ''model.h5'', File True True ''fake model''),
          (U ''model2.pt'', File True True ''fake model 2''),
          (U ''notes.txt'', File True True ''notes''),
          (U ''sub'', Dir [(U ''deep.onnx'', File True True ''deep'')])]"

definition sample_root :: node where
  "sample_root =
     Dir [(U ''models'', sample_models),
          (U ''locked'', Dir [(U ''secret.pt'', File False True ''secret'')]),
          (U ''backup.bin'', File True False ''fake model'')]"

definition sample_fs :: filesystem where
  "sample_fs = \<lparr> root = sample_root, cwd = [] \<rparr>"




definition sample_args :: args where
  "sample_args =
     \<lparr>arg_command = None, arg_model = [], arg_output = None, arg_checksum = None,
      arg_checksum_file = None, arg_directory = [], arg_formats = None,
      arg_no_recursive = False\<rparr>"

definition sample_sums :: checksums where
  "sample_sums = [(U ''models/model.h5'', U ''s0000000000'')]"

definition sample_sums_fs :: filesystem where
  "sample_sums_fs =
     sample_fs\<lparr>root := put_at sample_root [] (U ''sums.json'')
       (File True True (map char_of (json_dumps sample_sums)))\<rparr>"

definition calculate_missing_args :: args where
  "calculate_missing_args =
     sample_args\<lparr>arg_command := Some (U ''calculate''), arg_model := U ''models/nope.h5''\<rparr>"

definition calculate_directory_args :: args where
  "calculate_directory_args =
     sample_args\<lparr>arg_command := Some (U ''calculate''), arg_model := U ''models''\<rparr>"

definition verify_missing_sums_args :: args where
  "verify_missing_sums_args =
     sample_args\<lparr>arg_command := Some (U ''verify''), arg_model := U ''models/model.h5'',
       arg_checksum_file := Some (U ''nope.json'')\<rparr>"

definition scan_models_args :: args where
  "scan_models_args =
     sample_args\<lparr>arg_command := Some (U ''scan''), arg_directory := U ''models'',
       arg_no_recursive := True\<rparr>"

definition scan_root_args :: args where
  "scan_root_args = sample_args\<lparr>arg_command := Some (U ''scan''), arg_directory := U ''/''\<rparr>"

definition verify_neither_args :: args where
  "verify_neither_args =
     sample_args\<lparr>arg_command := Some (U ''verify''), arg_model := U ''models/model.h5''\<rparr>"

definition verify_both_args :: args where
  "verify_both_args =
     sample_args\<lparr>arg_command := Some (U ''verify''), arg_model := U ''models/model.h5'',
       arg_checksum := Some (U ''bogus''), arg_checksum_file := Some (U ''sums.json'')\<rparr>"

section \<open>Properties of the Hasher and the Verifier\<close>

lemmas fs_eval =
  path_exists_def stat_def is_file_def is_dir_def open_rb_def sample_fs_def sample_root_def
  sample_models_def U_def
  oserror_str_def enoent_error_def enotdir_error_def eisdir_error_def eacces_error_def

lemmas hash_eval =
  calculate_checksum_def new_hasher_def lower_def sample_hashlib_def verify_checksum_def

lemma read_loop_all: "read_loop (a, m) f = (a, m @ f)"
proof (induction "(a, m)" f arbitrary: m rule: read_loop.induct)
  case (1 f)
  show ?case
  proof (cases "f = []")
    case True
    then show ?thesis by (subst read_loop.simps) simp
  next
    case False
    have "read_loop (a, m) f = read_loop (a, m @ take 8192 f) (drop 8192 f)"
      using False by (subst read_loop.simps) (simp add: Let_def)
    also have "\<dots> = (a, (m @ take 8192 f) @ drop 8192 f)"
      using False by (intro "1.hyps") (auto simp: Let_def)
    finally show ?thesis by simp
  qed
qed



lemma open_rb_exists: "open_rb fs p = Inr b \<Longrightarrow> path_exists fs p"
  by (auto simp: open_rb_def path_exists_def split: sum.splits node.splits if_splits)

lemma calculate_checksum_file:
  assumes "open_rb fs (Path p) = Inr b"
  shows "calculate_checksum H fs p alg =
     (case new_hasher alg of
        None \<Rightarrow> Inl (ValueError (U ''Unsupported algorithm: '' @ alg))
      | Some h \<Rightarrow> Inr (H (fst h) (snd h @ b)))"
proof -
  have ex: "path_exists fs (Path p)" using assms by (rule open_rb_exists)
  show ?thesis
  proof (cases "new_hasher alg")
    case None
    then show ?thesis using ex by (simp add: calculate_checksum_def)
  next
    case (Some h)
    obtain a m where h: "h = (a, m)" by (cases h)
    show ?thesis using ex Some assms by (simp add: calculate_checksum_def h read_loop_all)
  qed
qed



lemma stat_readable_open_rb:
  "stat fs p = Inr (File True wr b) \<Longrightarrow> open_rb fs p = Inr b"
  by (simp add: open_rb_def)

text \<open>
  C8. \<open>calculate_checksum\<close> is a function of the file's bytes: on two readable regular
  files holding the same bytes (in the same or in different file systems, under the
  same or different paths) it returns the same result, and with a recognised algorithm
  that result is the digest of the bytes. It takes the file system and returns no new
  one, so a repeated call on the same path gives the same digest.
\<close>

theorem calculate_checksum_deterministic:
  assumes "stat fs1 (Path p1) = Inr (File True w1 b)"
    and "stat fs2 (Path p2) = Inr (File True w2 b)"
  shows "calculate_checksum H fs1 p1 alg = calculate_checksum H fs2 p2 alg
    \<and> (new_hasher alg = Some (a, []) \<longrightarrow> calculate_checksum H fs1 p1 alg = Inr (H a b))"
proof -
  have 1: "open_rb fs1 (Path p1) = Inr b" using assms(1) by (rule stat_readable_open_rb)
  have 2: "open_rb fs2 (Path p2) = Inr b" using assms(2) by (rule stat_readable_open_rb)
  show ?thesis
    by (simp add: calculate_checksum_file [OF 1] calculate_checksum_file [OF 2])
qed

theorem calculate_checksum_deterministic_witness:
  "stat sample_fs (Path (Str (U ''models/model.h5''))) = Inr (File True True ''fake model'')
   \<and> stat sample_fs (Path (Str (U ''/backup.bin''))) = Inr (File True False ''fake model'')
   \<and> new_hasher (U ''SHA256'') = Some (SHA256, [])
   \<and> calculate_checksum sample_hashlib sample_fs (Str (U ''models/model.h5'')) (U ''SHA256'') =
       calculate_checksum sample_hashlib sample_fs (Str (U ''/backup.bin'')) (U ''SHA256'')
   \<and> calculate_checksum sample_hashlib sample_fs (Str (U ''models/model.h5'')) (U ''SHA256'') =
       Inr (sample_hashlib SHA256 ''fake model'')"
proof -
  have 1: "stat sample_fs (Path (Str (U ''models/model.h5''))) = Inr (File True True ''fake model'')"
    by (simp add: fs_eval)
  have 2: "stat sample_fs (Path (Str (U ''/backup.bin''))) = Inr (File True False ''fake model'')"
    by (simp add: fs_eval)
  have 3: "new_hasher (U ''SHA256'') = Some (SHA256, [])"
    by (simp add: new_hasher_def lower_def U_def)
  from calculate_checksum_deterministic [OF 1 2, of sample_hashlib "U ''SHA256''" SHA256] 1 2 3
  show ?thesis by blast
qed




section \<open>Path resolution\<close>






lemma split_on_no_sep: "sep \<notin> set s \<Longrightarrow> split_on sep s = [s]"
  by (induction s) auto



section \<open>What a glob yields\<close>



lemma select_in_not_dir:
  "\<forall>es. node_at d rel \<noteq> Some (Dir es) \<Longrightarrow> select_in d e rel = []"
  by (auto simp: select_in_def split: option.splits node.splits)





lemma plain_suffix_no_sep: "plain_suffix e \<Longrightarrow> 0x2F \<notin> set e"
  by (auto simp: plain_suffix_def list_all_iff)

lemma pattern_parts_recursive:
  assumes "plain_suffix e"
  shows "filter (\<lambda>p. p \<noteq> [] \<and> p \<noteq> U ''.'') (split_on 0x2F (U ''**/*'' @ e)) = [U ''**'', 0x2A # e]"
proof -
  have "(0x2F::nat) \<notin> set (0x2A # e)" using plain_suffix_no_sep [OF assms] by simp
  then have "split_on 0x2F (0x2A # e) = [0x2A # e]" by (rule split_on_no_sep)
  then show ?thesis by (simp add: U_def)
qed

lemma pattern_parts_direct:
  assumes "plain_suffix e"
  shows "filter (\<lambda>p. p \<noteq> [] \<and> p \<noteq> U ''.'') (split_on 0x2F (U ''*'' @ e)) = [0x2A # e]"
proof -
  have "(0x2F::nat) \<notin> set (0x2A # e)" using plain_suffix_no_sep [OF assms] by simp
  then have "split_on 0x2F (0x2A # e) = [0x2A # e]" by (rule split_on_no_sep)
  then show ?thesis by (simp add: U_def)
qed



lemma glob_plain_missing:
  assumes "plain_suffix e" and "stat fs dir = Inl err"
  shows "glob fs dir (scan_pattern recursive @ e) = Inr []"
  using assms
  by (cases recursive)
    (simp_all add: glob_def scan_pattern_def pattern_parts_recursive pattern_parts_direct
      star_literal_def)

section \<open>The loops of the Scanner\<close>










section \<open>A scan of a well-formed directory\<close>


lemma str_of_relative: "ps \<noteq> [] \<Longrightarrow> str_of_path (PurePath False ps) = join_with 0x2F ps"
  by simp

lemma make_child_inj: "make_child dir ps = make_child dir qs \<Longrightarrow> ps = qs"
  by (simp add: make_child_def)






















section \<open>Properties of the Scanner\<close>




















text \<open>
  C9. \<open>get_supported_formats\<close> returns a list object of its own: its address is not the
  address of \<open>SUPPORTED_FORMATS\<close>, nor that of the list an earlier call returned, and its
  items are those of \<open>SUPPORTED_FORMATS\<close>. Whatever is done to the returned list,
  \<open>SUPPORTED_FORMATS\<close> keeps its items, \<open>scan_directory\<close> without a \<open>formats\<close> argument
  does what it did before, and a later call of \<open>get_supported_formats\<close> returns the
  same items again.
\<close>

theorem get_supported_formats_fresh_copy:
  assumes "SUPPORTED_FORMATS < fresh ms"
    and "get_supported_formats ms = (a, ms1)"
    and "ms2 = list_mutate ms1 a f"
    and "get_supported_formats ms2 = (b, ms3)"
  shows "a \<noteq> SUPPORTED_FORMATS \<and> b \<noteq> SUPPORTED_FORMATS \<and> b \<noteq> a
     \<and> lists ms1 a = lists ms SUPPORTED_FORMATS
     \<and> lists ms2 SUPPORTED_FORMATS = lists ms SUPPORTED_FORMATS
     \<and> lists ms3 b = lists ms SUPPORTED_FORMATS
     \<and> scan_directory H ms2 fs directory None recursive =
         scan_directory H ms fs directory None recursive"
proof -
  from assms(2) have a: "a = fresh ms"
    and ms1: "ms1 = ms\<lparr>lists := (lists ms)(fresh ms := lists ms SUPPORTED_FORMATS),
        fresh := Suc (fresh ms)\<rparr>"
    by (auto simp: get_supported_formats_def list_copy_def)
  from assms(1) a have ne: "a \<noteq> SUPPORTED_FORMATS" by simp
  have l2: "lists ms2 SUPPORTED_FORMATS = lists ms SUPPORTED_FORMATS"
    using ne by (simp add: assms(3) list_mutate_def ms1 a)
  have f2: "fresh ms2 = Suc (fresh ms)" by (simp add: assms(3) list_mutate_def ms1)
  from assms(4) have b: "b = fresh ms2" and l3: "lists ms3 b = lists ms2 SUPPORTED_FORMATS"
    by (auto simp: get_supported_formats_def list_copy_def)
  have "scan_directory H ms2 fs directory None recursive =
      scan_directory H ms fs directory None recursive"
    by (simp add: scan_directory_def l2)
  with ne l2 l3 b f2 a assms(1) ms1 show ?thesis by simp
qed

theorem get_supported_formats_fresh_copy_witness:
  "SUPPORTED_FORMATS < fresh initial_module
   \<and> fst (get_supported_formats initial_module) = 1
   \<and> lists (list_mutate (snd (get_supported_formats initial_module)) 1 (\<lambda>xs. xs @ [U ''.bin'']))
        1 = [U ''.h5'', U ''.pt'', U ''.onnx'', U ''.bin'']
   \<and> lists (list_mutate (snd (get_supported_formats initial_module)) 1 (\<lambda>xs. xs @ [U ''.bin'']))
        SUPPORTED_FORMATS = [U ''.h5'', U ''.pt'', U ''.onnx'']
   \<and> fst (get_supported_formats
        (list_mutate (snd (get_supported_formats initial_module)) 1 (\<lambda>xs. xs @ [U ''.bin'']))) = 2
   \<and> scan_directory sample_hashlib
        (list_mutate (snd (get_supported_formats initial_module)) 1 (\<lambda>xs. xs @ [U ''.bin'']))
        sample_fs (Str (U ''/'')) None False =
      scan_directory sample_hashlib initial_module sample_fs (Str (U ''/'')) None False"
proof -
  let ?ms1 = "snd (get_supported_formats initial_module)"
  let ?ms2 = "list_mutate ?ms1 1 (\<lambda>xs. xs @ [U ''.bin''])"
  have 0: "SUPPORTED_FORMATS < fresh initial_module"
    by (simp add: initial_module_def SUPPORTED_FORMATS_def)
  have 1: "get_supported_formats initial_module = (1, ?ms1)"
    by (simp add: get_supported_formats_def list_copy_def initial_module_def)
  have 2: "get_supported_formats ?ms2 = (2, snd (get_supported_formats ?ms2))"
    by (simp add: get_supported_formats_def list_copy_def initial_module_def list_mutate_def)
  have 3: "lists ?ms2 1 = [U ''.h5'', U ''.pt'', U ''.onnx'', U ''.bin'']"
    by (simp add: get_supported_formats_def list_copy_def initial_module_def list_mutate_def
        SUPPORTED_FORMATS_def)
  have 4: "lists initial_module SUPPORTED_FORMATS = [U ''.h5'', U ''.pt'', U ''.onnx'']"
    by (simp add: initial_module_def)
  note t = get_supported_formats_fresh_copy
    [OF 0 1 refl 2, of sample_hashlib sample_fs "Str (U ''/'')" False]
  have 5: "fst (get_supported_formats initial_module) = 1"
    by (simp add: get_supported_formats_def list_copy_def initial_module_def)
  have 6: "fst (get_supported_formats ?ms2) = 2"
    by (simp add: get_supported_formats_def list_copy_def initial_module_def list_mutate_def)
  from t have 7: "lists ?ms2 SUPPORTED_FORMATS = lists initial_module SUPPORTED_FORMATS" by blast
  from t have 8: "scan_directory sample_hashlib ?ms2 sample_fs (Str (U ''/'')) None False =
      scan_directory sample_hashlib initial_module sample_fs (Str (U ''/'')) None False" by blast
  from 7 4 have 9: "lists ?ms2 SUPPORTED_FORMATS = [U ''.h5'', U ''.pt'', U ''.onnx'']"
    by (rule trans)
  from 0 5 3 9 6 8 show ?thesis by blast
qed

section \<open>Encoding and decoding a string\<close>


























section \<open>The document of a record\<close>












section \<open>Reading a file that was written\<close>


lemma node_at_file: "q \<noteq> [] \<Longrightarrow> node_at (File rd wr c) q = None"
  by (cases q) simp_all







section \<open>Properties of the Checksum Store\<close>






lemmas json_eval =
  json_dumps_def dump_item_def encode_basestring_ascii_def escape_char_def hex4_def hexdigit_def
  json_loads_def skip_ws_def is_ws_def scanstring.simps decode_hex4_def hexval_def backslash_def
  is_high_surrogate_def is_low_surrogate_def join_surrogates_def

lemmas store_eval =
  save_then_load_def save_checksums_def load_checksums_def utf8_encode_char_def cons_char_def
  write_file_def read_file_def start_dir_def


section \<open>Properties of the Command Shell\<close>










lemmas args_eval =
  sample_args_def calculate_missing_args_def calculate_directory_args_def
  verify_missing_sums_args_def scan_models_args_def scan_root_args_def
  verify_neither_args_def verify_both_args_def




text \<open>
  C7. With neither \<^verbatim>\<open>--checksum\<close> nor \<^verbatim>\<open>--checksum-file\<close> (or with empty values for them)
  \<open>verify\<close> returns 1 with the one message on the error stream, whatever the files hold,
  and leaves them as they are. With \<^verbatim>\<open>--checksum-file\<close> the value of \<^verbatim>\<open>--checksum\<close> is not
  looked at: with both flags \<open>verify\<close> does what it does with \<^verbatim>\<open>--checksum-file\<close> alone.
\<close>

theorem verify_flags:
  "(arg_command a = Some (U ''verify'') \<and> \<not> truthy (arg_checksum a)
      \<and> \<not> truthy (arg_checksum_file a)
    \<longrightarrow> main H ms fs a =
          Inr \<lparr>status = 1, stdout = [],
               stderr = [U ''Error: Either --checksum or --checksum-file required''],
               files = fs, modstate = ms\<rparr>)
   \<and> (arg_command a = Some (U ''verify'') \<and> truthy (arg_checksum_file a)
    \<longrightarrow> main H ms fs a = main H ms fs (a\<lparr>arg_checksum := None\<rparr>))"
  by (simp add: main_def cmd_verify_def U_def cong: sum.case_cong option.case_cong)

theorem verify_flags_witness:
  "main sample_hashlib initial_module sample_sums_fs verify_neither_args =
     Inr \<lparr>status = 1, stdout = [],
          stderr = [U ''Error: Either --checksum or --checksum-file required''],
          files = sample_sums_fs, modstate = initial_module\<rparr>
   \<and> main sample_hashlib initial_module sample_sums_fs verify_both_args =
       main sample_hashlib initial_module sample_sums_fs (verify_both_args\<lparr>arg_checksum := None\<rparr>)"
proof -
  have 1: "arg_command verify_neither_args = Some (U ''verify'')"
    "\<not> truthy (arg_checksum verify_neither_args)"
    "\<not> truthy (arg_checksum_file verify_neither_args)"
    by (simp_all add: args_eval)
  have 2: "arg_command verify_both_args = Some (U ''verify'')"
    "truthy (arg_checksum_file verify_both_args)"
    by (simp_all add: args_eval U_def)
  from verify_flags [of verify_neither_args sample_hashlib initial_module sample_sums_fs] 1
  have a: "main sample_hashlib initial_module sample_sums_fs verify_neither_args =
     Inr \<lparr>status = 1, stdout = [],
          stderr = [U ''Error: Either --checksum or --checksum-file required''],
          files = sample_sums_fs, modstate = initial_module\<rparr>"
    by blast
  from verify_flags [of verify_both_args sample_hashlib initial_module sample_sums_fs] 2
  have b: "main sample_hashlib initial_module sample_sums_fs verify_both_args =
       main sample_hashlib initial_module sample_sums_fs (verify_both_args\<lparr>arg_checksum := None\<rparr>)"
    by blast
  from a b show ?thesis by (rule conjI)
qed

text \<open>
  The claim as the specification words it fails when both flags are given: the file
  \<^verbatim>\<open>sums.json\<close> holds the digest of the model, \<^verbatim>\<open>--checksum\<close> is another value, and
  \<open>verify\<close> accepts the invocation and reports that the checksum is verified.
\<close>

theorem verify_both_flags_counterexample:
  "arg_checksum verify_both_args = Some (U ''bogus'')
   \<and> arg_checksum_file verify_both_args = Some (U ''sums.json'')
   \<and> main sample_hashlib initial_module sample_sums_fs verify_both_args =
       Inr \<lparr>status = 0, stdout = [0x2713 # U '' Checksum verified successfully''],
            stderr = [], files = sample_sums_fs, modstate = initial_module\<rparr>"
proof -
  have 1: "load_checksums sample_sums_fs (U ''sums.json'') =
      Inr (PyDict [(U ''models/model.h5'', PyStr (U ''s0000000000''))])"
    by (simp add: sample_sums_fs_def sample_sums_def store_eval json_eval fs_eval)
  have 2: "verify_checksum sample_hashlib sample_sums_fs (Str (U ''models/model.h5''))
      (PyStr (U ''s0000000000'')) = Inr True"
    by (simp add: sample_sums_fs_def hash_eval fs_eval read_loop_all)
  have 3: "arg_command verify_both_args = Some (U ''verify'')"
    "arg_model verify_both_args = U ''models/model.h5''"
    "arg_checksum verify_both_args = Some (U ''bogus'')"
    "arg_checksum_file verify_both_args = Some (U ''sums.json'')"
    by (simp_all add: args_eval)
  have 4: "U ''sums.json'' \<noteq> []" "U ''bogus'' \<noteq> []"
    "U ''verify'' \<noteq> U ''calculate''" "U ''verify'' \<noteq> []"
    by (simp_all add: U_def)
  have "main sample_hashlib initial_module sample_sums_fs verify_both_args =
       Inr \<lparr>status = 0, stdout = [0x2713 # U '' Checksum verified successfully''],
            stderr = [], files = sample_sums_fs, modstate = initial_module\<rparr>"
    by (simp add: main_def cmd_verify_def report_verification_def 1 2 3 4)
  with 3 show ?thesis by simp
qed

end
